theory Spec2Isabelle
  imports Complex_Main "HOL-Library.Sublist"
begin

section \<open>Numbers\<close>

text \<open>
  Monetary quantities, prices and indicator values are Python floats in the source. They
  are modelled as exact rationals: rounding of IEEE doubles is not part of the model. An
  undefined value (pandas NaN) of an indicator series is \<open>None\<close>; every comparison with
  NaN is false.
\<close>

type_synonym series = "rat option list"

definition nan_less :: "rat option \<Rightarrow> rat option \<Rightarrow> bool" where
  "nan_less a b = (case a of None \<Rightarrow> False
                   | Some x \<Rightarrow> (case b of None \<Rightarrow> False | Some y \<Rightarrow> x < y))"

definition py_int :: "rat \<Rightarrow> int" where
  \<comment> \<open>Python \<open>int(x)\<close> of a finite float: truncation toward zero.\<close>
  "py_int x = (if 0 \<le> x then \<lfloor>x\<rfloor> else \<lceil>x\<rceil>)"

section \<open>Technical indicators (src/data/indicators.py)\<close>

definition diff :: "series \<Rightarrow> series" where
  \<comment> \<open>\<open>prices.diff()\<close>: the first entry is NaN, entry i is \<open>x[i] - x[i-1]\<close>.\<close>
  "diff xs = (case xs of [] \<Rightarrow> []
              | _ # ys \<Rightarrow> None # map2 (\<lambda>a b. case a of None \<Rightarrow> None
                                          | Some u \<Rightarrow> (case b of None \<Rightarrow> None | Some v \<Rightarrow> Some (v - u))) xs ys)"

definition where_or :: "(rat \<Rightarrow> bool) \<Rightarrow> rat \<Rightarrow> series \<Rightarrow> series" where
  \<comment> \<open>\<open>s.where(cond, other)\<close>: keep the entry where the condition holds, else \<open>other\<close>;
      the condition is false on NaN.\<close>
  "where_or cond other xs =
     map (\<lambda>x. case x of None \<Rightarrow> Some other
               | Some v \<Rightarrow> if cond v then Some v else Some other) xs"

definition neg :: "series \<Rightarrow> series" where
  "neg xs = map (map_option uminus) xs"

definition window_mean :: "nat \<Rightarrow> series \<Rightarrow> rat option" where
  \<comment> \<open>mean of one full window; NaN when an observation of the window is NaN\<close>
  "window_mean w win =
     (if list_all (\<lambda>x. x \<noteq> None) win then Some (sum_list (map the win) / of_nat w) else None)"

definition rolling_mean :: "nat \<Rightarrow> series \<Rightarrow> series" where
  \<comment> \<open>\<open>s.rolling(window=w).mean()\<close>: NaN until w observations are available, and NaN
      everywhere for an empty window.\<close>
  "rolling_mean w xs =
     map (\<lambda>i. if w = 0 \<or> i + 1 < w then None
               else window_mean w (take w (drop (i + 1 - w) xs)))
       [0..<length xs]"

definition rsi_point :: "rat option \<Rightarrow> rat option \<Rightarrow> rat option" where
  \<comment> \<open>\<open>rs = gain / loss; rsi = 100 - (100 / (1 + rs))\<close> at one index. A zero loss with a
      nonzero gain gives rs = inf and rsi = 100; 0 / 0 is NaN. Gain and loss are means of
      non-negative numbers, so 1 + rs is never zero.\<close>
  "rsi_point gain loss =
     (case gain of None \<Rightarrow> None
      | Some g \<Rightarrow> (case loss of None \<Rightarrow> None
          | Some l \<Rightarrow> if l = 0 then (if g = 0 then None else Some 100)
                      else Some (100 - (100 / (1 + g / l)))))"

definition calculate_rsi :: "series \<Rightarrow> nat \<Rightarrow> series" where
  "calculate_rsi prices period =
     (let delta = diff prices;
          gain = rolling_mean period (where_or (\<lambda>d. d > 0) 0 delta);
          loss = rolling_mean period (neg (where_or (\<lambda>d. d < 0) 0 delta))
      in map2 rsi_point gain loss)"

definition calculate_moving_averages :: "series \<Rightarrow> nat \<Rightarrow> nat \<Rightarrow> series \<times> series" where
  "calculate_moving_averages prices short_window long_window =
     (rolling_mean short_window prices, rolling_mean long_window prices)"

section \<open>Backtester (src/strategy/backtester.py)\<close>

record backtester =
  initial_capital :: rat
  transaction_cost :: rat
  max_position_size :: rat

definition Backtester :: "rat \<Rightarrow> backtester" where
  \<comment> \<open>\<open>Backtester.__init__\<close>: the fee and the position size are fixed.\<close>
  "Backtester ic =
     \<lparr>initial_capital = ic, transaction_cost = 1 / 1000, max_position_size = 3 / 10\<rparr>"

text \<open>
  One row of the \<open>signals\<close> frame. The index label is the date, a day number:
  \<open>(date - buy_date).days\<close> is the difference of two day numbers. Signal: 0 = Hold,
  1 = Buy, -1 = Sell.
\<close>

record sigrow =
  Date :: int
  Price :: rat
  RSI :: "rat option"
  MA20 :: "rat option"
  MA50 :: "rat option"
  Signal :: int

subsection \<open>generate_signals\<close>

definition loc_mask :: "bool list \<Rightarrow> int \<Rightarrow> sigrow list \<Rightarrow> sigrow list" where
  \<comment> \<open>\<open>signals.loc[mask, 'Signal'] = v\<close>\<close>
  "loc_mask cond v rows = map2 (\<lambda>c r. if c then r\<lparr>Signal := v\<rparr> else r) cond rows"

definition loc_label :: "int \<Rightarrow> int \<Rightarrow> sigrow list \<Rightarrow> sigrow list" where
  \<comment> \<open>\<open>signals.loc[date, 'Signal'] = v\<close>: every row carrying that label\<close>
  "loc_label d v rows = map (\<lambda>r. if Date r = d then r\<lparr>Signal := v\<rparr> else r) rows"

definition buy_condition :: "sigrow \<Rightarrow> bool" where
  "buy_condition r = (nan_less (RSI r) (Some 30) \<and> nan_less (MA50 r) (MA20 r))"

definition sell_condition :: "sigrow \<Rightarrow> bool" where
  "sell_condition r = (nan_less (Some 50) (RSI r) \<or> nan_less (MA20 r) (MA50 r))"

definition indicator_frame :: "(int \<times> rat) list \<Rightarrow> sigrow list" where
  \<comment> \<open>lines 35-44: the frame on the index of \<open>data\<close>, every Signal 0\<close>
  "indicator_frame data =
     (let closes = map (\<lambda>(d, c). Some c) data;
          rsi = calculate_rsi closes 14;
          (ma20, ma50) = calculate_moving_averages closes 20 50
      in map (\<lambda>i. \<lparr>Date = fst (data ! i), Price = snd (data ! i), RSI = rsi ! i,
                     MA20 = ma20 ! i, MA50 = ma50 ! i, Signal = 0\<rparr>) [0..<length data])"

definition apply_strategy :: "sigrow list \<Rightarrow> sigrow list" where
  \<comment> \<open>lines 46-55: the Buy mask is assigned first, the Sell mask after it\<close>
  "apply_strategy signals =
     (let signals1 = loc_mask (map buy_condition signals) 1 signals
      in loc_mask (map sell_condition signals1) (- 1) signals1)"

text \<open>
  The time-based exit, lines 59-76. \<open>iterrows\<close> reads the rows of the frame as it was
  when the loop started (first list); the forced Sell is written into the frame by label
  (second list).
\<close>

fun forced_exit :: "bool \<Rightarrow> int option \<Rightarrow> sigrow list \<Rightarrow> sigrow list \<Rightarrow> sigrow list" where
  "forced_exit in_position buy_date [] signals = signals"
| "forced_exit in_position buy_date (row # rest) signals =
     (if Signal row = 1 \<and> \<not> in_position then forced_exit True (Some (Date row)) rest signals
      else if Signal row = - 1 \<and> in_position then forced_exit False None rest signals
      else if in_position \<and> buy_date \<noteq> None then
        (let days_held = Date row - the buy_date
         in if days_held \<ge> 30
            then forced_exit False None rest (loc_label (Date row) (- 1) signals)
            else forced_exit in_position buy_date rest signals)
      else forced_exit in_position buy_date rest signals)"

definition time_exit :: "sigrow list \<Rightarrow> sigrow list" where
  "time_exit signals = forced_exit False None signals signals"

definition generate_signals :: "(int \<times> rat) list \<Rightarrow> sigrow list" where
  "generate_signals data = time_exit (apply_strategy (indicator_frame data))"

subsection \<open>simulate_trading\<close>

record portfolio =
  cash :: rat
  shares :: int
  total_value :: rat

datatype action = BUY | SELL

record trade =
  t_date :: int
  t_action :: action
  t_shares :: int
  t_price :: rat
  t_value :: rat
  t_portfolio_value :: rat

record history_point =
  h_date :: int
  h_portfolio_value :: rat
  h_price :: rat
  h_cash :: rat
  h_shares :: int

datatype error = OverflowError | ValueError

type_synonym sim_state = "trade list \<times> history_point list \<times> portfolio"

text \<open>
  The body of the loop, lines 95-148. The quotient \<open>investment_amount / price\<close> of the Buy
  branch is infinite or NaN at a zero price, and \<open>int\<close> of it raises.
\<close>

definition simulate_day :: "backtester \<Rightarrow> sim_state \<Rightarrow> sigrow \<Rightarrow> error + sim_state" where
  "simulate_day bt st row =
     (case st of (trades, portfolio_history, pf) \<Rightarrow>
       let signal = Signal row;
           price = Price row;
           current_value = cash pf + of_int (shares pf) * price;
           pf1 = pf\<lparr>total_value := current_value\<rparr>;
           history1 = portfolio_history @
             [\<lparr>h_date = Date row, h_portfolio_value = current_value, h_price = price,
               h_cash = cash pf1, h_shares = shares pf1\<rparr>]
       in if signal = 1 \<and> shares pf1 = 0 then
            (let investment_amount = current_value * max_position_size bt
             in if price = 0
                then Inl (if investment_amount = 0 then ValueError else OverflowError)
                else
                  (let shares_to_buy = py_int (investment_amount / price)
                   in if shares_to_buy > 0 then
                        (let total_cost = of_int shares_to_buy * price * (1 + transaction_cost bt)
                         in if total_cost \<le> cash pf1 then
                              Inr (trades @
                                     [\<lparr>t_date = Date row, t_action = BUY, t_shares = shares_to_buy,
                                       t_price = price, t_value = total_cost,
                                       t_portfolio_value = current_value\<rparr>],
                                   history1,
                                   pf1\<lparr>cash := cash pf1 - total_cost,
                                       shares := shares pf1 + shares_to_buy\<rparr>)
                            else Inr (trades, history1, pf1))
                      else Inr (trades, history1, pf1)))
          else if signal = - 1 \<and> shares pf1 > 0 then
            (let total_sale = of_int (shares pf1) * price * (1 - transaction_cost bt)
             in Inr (trades @
                       [\<lparr>t_date = Date row, t_action = SELL, t_shares = shares pf1,
                         t_price = price, t_value = total_sale,
                         t_portfolio_value = current_value\<rparr>],
                     history1,
                     pf1\<lparr>cash := cash pf1 + total_sale, shares := 0\<rparr>))
          else Inr (trades, history1, pf1))"

fun simulate_loop :: "backtester \<Rightarrow> sim_state \<Rightarrow> sigrow list \<Rightarrow> error + sim_state" where
  "simulate_loop bt st [] = Inr st"
| "simulate_loop bt st (row # rest) =
     (case simulate_day bt st row of
        Inl e \<Rightarrow> Inl e
      | Inr st' \<Rightarrow> simulate_loop bt st' rest)"

definition simulate_trading :: "backtester \<Rightarrow> sigrow list \<Rightarrow> error + sim_state" where
  "simulate_trading bt signals =
     simulate_loop bt
       ([], [], \<lparr>cash = initial_capital bt, shares = 0, total_value = initial_capital bt\<rparr>)
       signals"

section \<open>Notions used in the statements\<close>



definition sell_or_same :: "sigrow \<Rightarrow> sigrow \<Rightarrow> bool" where
  \<comment> \<open>the second row is the first one, or the first one with its Signal set to Sell\<close>
  "sell_or_same r r' = (r' = r \<or> r' = r\<lparr>Signal := - 1\<rparr>)"

text \<open>The valuation of a day and the history point recorded for it, from the ledger before the day.\<close>

definition day_value :: "portfolio \<Rightarrow> sigrow \<Rightarrow> rat" where
  "day_value pf row = cash pf + of_int (shares pf) * Price row"

definition day_point :: "portfolio \<Rightarrow> sigrow \<Rightarrow> history_point" where
  "day_point pf row = \<lparr>h_date = Date row, h_portfolio_value = day_value pf row,
      h_price = Price row, h_cash = cash pf, h_shares = shares pf\<rparr>"

definition sized_before_trade :: "backtester \<Rightarrow> portfolio \<Rightarrow> sigrow \<Rightarrow> trade \<Rightarrow> bool" where
  \<comment> \<open>the trade carries the valuation made from the ledger \<open>pf\<close> before it, and a Buy is
      sized from that valuation\<close>
  "sized_before_trade bt pf row t =
     (t_portfolio_value t = day_value pf row \<and>
      (t_action t = BUY \<longrightarrow>
         t_shares t = py_int (day_value pf row * max_position_size bt / Price row)))"

text \<open>
  A trade list alternates: Buy, Sell, Buy, ... from the start, every Buy of a positive
  quantity, every Sell of the quantity of the Buy before it. \<open>open_shares\<close> is the quantity
  of a Buy that is not yet followed by its Sell.
\<close>

fun alternates :: "trade list \<Rightarrow> bool" where
  "alternates [] = True"
| "alternates [b] = (t_action b = BUY \<and> 0 < t_shares b)"
| "alternates (b # s # rest) =
     (t_action b = BUY \<and> 0 < t_shares b \<and> t_action s = SELL \<and> t_shares s = t_shares b \<and>
      alternates rest)"

definition open_shares :: "trade list \<Rightarrow> int" where
  "open_shares ts = (if ts = [] then 0
                     else if t_action (last ts) = BUY then t_shares (last ts) else 0)"

section \<open>Concrete inputs\<close>

text \<open>The two-day scenario: a Buy at price 100 on day 1, a Sell at price 110 on day 2.\<close>

definition scenario_day1 :: sigrow where
  "scenario_day1 = \<lparr>Date = 1, Price = 100, RSI = None, MA20 = None, MA50 = None, Signal = 1\<rparr>"

definition scenario_day2 :: sigrow where
  "scenario_day2 = \<lparr>Date = 2, Price = 110, RSI = None, MA20 = None, MA50 = None, Signal = - 1\<rparr>"

definition scenario_trades :: "trade list" where
  "scenario_trades =
     [\<lparr>t_date = 1, t_action = BUY, t_shares = 300, t_price = 100,
       t_value = 30030, t_portfolio_value = 100000\<rparr>,
      \<lparr>t_date = 2, t_action = SELL, t_shares = 300, t_price = 110,
       t_value = 32967, t_portfolio_value = 102970\<rparr>]"

definition scenario_history :: "history_point list" where
  "scenario_history =
     [\<lparr>h_date = 1, h_portfolio_value = 100000, h_price = 100, h_cash = 100000, h_shares = 0\<rparr>,
      \<lparr>h_date = 2, h_portfolio_value = 102970, h_price = 110, h_cash = 69970, h_shares = 300\<rparr>]"




text \<open>Two Hold rows at different prices.\<close>

definition hold_rows :: "sigrow list" where
  "hold_rows =
     [\<lparr>Date = 1, Price = 100, RSI = None, MA20 = None, MA50 = None, Signal = 0\<rparr>,
      \<lparr>Date = 2, Price = 250, RSI = None, MA20 = None, MA50 = None, Signal = 0\<rparr>]"

text \<open>A Buy row whose price exceeds 30% of the capital: the share count is zero.\<close>

definition costly_row :: sigrow where
  "costly_row = \<lparr>Date = 1, Price = 40000, RSI = None, MA20 = None, MA50 = None, Signal = 1\<rparr>"

text \<open>
  Fifty daily closes: 36 days rising by 10 from 100 to 450, then 14 days falling by 1 to 436.
  On the last day RSI(14) is 0 and MA20 is above MA50.
\<close>

definition sample_data :: "(int \<times> rat) list" where
  "sample_data =
     map (\<lambda>i. (int i, if i \<le> 35 then 100 + 10 * of_nat i else 485 - of_nat i)) [0..<50]"

text \<open>A row entered while in position since day 5: a raw Buy on day 20 and on day 40.\<close>

definition rebuy_row :: "int \<Rightarrow> sigrow" where
  "rebuy_row d = \<lparr>Date = d, Price = 100, RSI = Some 20, MA20 = Some 110, MA50 = Some 100, Signal = 1\<rparr>"

section \<open>The simulator, day by day\<close>

lemma loop_append:
  "simulate_loop bt st (xs @ ys) =
     (case simulate_loop bt st xs of Inl e \<Rightarrow> Inl e | Inr st' \<Rightarrow> simulate_loop bt st' ys)"
  by (induction xs arbitrary: st) (auto split: sum.splits)

lemma loop_prefix:
  assumes "simulate_loop bt st signals = Inr st'"
  shows "\<exists>stk. simulate_loop bt st (take k signals) = Inr stk \<and>
               simulate_loop bt stk (drop k signals) = Inr st'"
proof -
  have "simulate_loop bt st (take k signals @ drop k signals) = Inr st'"
    using assms by simp
  then show ?thesis
    unfolding loop_append by (auto split: sum.splits)
qed

lemma loop_step:
  assumes "simulate_loop bt (T, H, pf) (row # rest) = Inr (T', H', pf')"
  obtains T1 H1 pf1 where "simulate_day bt (T, H, pf) row = Inr (T1, H1, pf1)"
    and "simulate_loop bt (T1, H1, pf1) rest = Inr (T', H', pf')"
  using assms by (auto split: sum.splits)

lemma scenario_run:
  "simulate_trading (Backtester 100000) [scenario_day1, scenario_day2] =
     Inr (scenario_trades, scenario_history, \<lparr>cash = 102937, shares = 0, total_value = 102970\<rparr>)"
  by (simp add: simulate_trading_def Backtester_def scenario_day1_def scenario_day2_def
      scenario_trades_def scenario_history_def simulate_day_def py_int_def Let_def)

subsection \<open>The two-day scenario\<close>

text \<open>
  The ledger returned by the scenario is stale: it holds no shares and 102937 in cash,
  and its total_value is neither that cash nor the 102937 the scenario expects.
\<close>

lemma scenario_total_value_stale:
  "total_value (snd (snd (projr
     (simulate_trading (Backtester 100000) [scenario_day1, scenario_day2])))) \<noteq> 102937 \<and>
   total_value (snd (snd (projr
     (simulate_trading (Backtester 100000) [scenario_day1, scenario_day2])))) \<noteq>
   cash (snd (snd (projr
     (simulate_trading (Backtester 100000) [scenario_day1, scenario_day2]))))"
  by (simp add: simulate_trading_def Backtester_def scenario_day1_def scenario_day2_def
      simulate_day_def py_int_def Let_def)

text \<open>
  C1: with initial capital 100000, fee 0.001 and position size 0.3, the two-day scenario
  buys 300 shares for 30030 (cash 69970), sells them for 32967, and should end with cash
  102937, no shares and total_value 102937. The code, evaluated on the scenario, returns
  the trades, the cash and the shares of the claim, but total_value 102970: the value
  of day 2 before the Sell (69970 + 300 * 110), which is assigned before the trade and
  not refreshed after it.
\<close>

theorem scenario_result:
  "simulate_trading (Backtester 100000) [scenario_day1, scenario_day2] =
     Inr ([\<lparr>t_date = 1, t_action = BUY, t_shares = 300, t_price = 100,
             t_value = 30030, t_portfolio_value = 100000\<rparr>,
           \<lparr>t_date = 2, t_action = SELL, t_shares = 300, t_price = 110,
             t_value = 32967, t_portfolio_value = 102970\<rparr>],
          [\<lparr>h_date = 1, h_portfolio_value = 100000, h_price = 100,
             h_cash = 100000, h_shares = 0\<rparr>,
           \<lparr>h_date = 2, h_portfolio_value = 102970, h_price = 110,
             h_cash = 69970, h_shares = 300\<rparr>],
          \<lparr>cash = 102937, shares = 0, total_value = 102970\<rparr>)"
  by (simp add: simulate_trading_def Backtester_def scenario_day1_def scenario_day2_def
      simulate_day_def py_int_def Let_def)

subsection \<open>Valuation before the trade\<close>

lemma day_history:
  assumes "simulate_day bt (T, H, pf) row = Inr (T', H', pf')"
  shows "H' = H @ [day_point pf row] \<and> total_value pf' = day_value pf row \<and>
         (T' = T \<or> (\<exists>t. T' = T @ [t] \<and> sized_before_trade bt pf row t))"
  using assms
  by (auto simp: simulate_day_def Let_def day_point_def day_value_def sized_before_trade_def
      split: if_splits)

lemma loop_history:
  assumes "simulate_loop bt (T, H, pf) signals = Inr (T', H', pf')"
  shows "\<exists>Hn. H' = H @ Hn \<and> length Hn = length signals"
  using assms
proof (induction signals arbitrary: T H pf)
  case Nil
  then show ?case by simp
next
  case (Cons row rest)
  from Cons.prems obtain T1 H1 pf1 where
    d: "simulate_day bt (T, H, pf) row = Inr (T1, H1, pf1)" and
    l: "simulate_loop bt (T1, H1, pf1) rest = Inr (T', H', pf')"
    by (rule loop_step)
  from day_history[OF d] have "H1 = H @ [day_point pf row]" by simp
  with Cons.IH[OF l] show ?case by auto
qed

text \<open>
  C2: on every iteration i the simulator values the portfolio from the ledger left by the
  days before (the ledger of the run on the first i rows) at the price of day i, appends
  exactly one history point carrying that value, and only then trades: a trade of day i
  carries that value, and a Buy of day i is sized from it.
\<close>

theorem valuation_before_trade:
  assumes "simulate_trading bt signals = Inr (trades, history, pf)" and "i < length signals"
  shows "length history = length signals \<and>
    (\<exists>Ti Hi pfi T1 H1 pf1.
        simulate_trading bt (take i signals) = Inr (Ti, Hi, pfi) \<and>
        simulate_trading bt (take (Suc i) signals) = Inr (T1, H1, pf1) \<and>
        history ! i = day_point pfi (signals ! i) \<and>
        H1 = Hi @ [history ! i] \<and>
        (T1 = Ti \<or> (\<exists>t. T1 = Ti @ [t] \<and> sized_before_trade bt pfi (signals ! i) t)))"
proof -
  let ?st0 = "([], [], \<lparr>cash = initial_capital bt, shares = 0, total_value = initial_capital bt\<rparr>)"
  have full: "simulate_loop bt ?st0 signals = Inr (trades, history, pf)"
    using assms(1) by (simp add: simulate_trading_def)
  from loop_history[OF full] have len: "length history = length signals" by auto
  from loop_prefix[OF full, of i] obtain Ti Hi pfi where
    p: "simulate_loop bt ?st0 (take i signals) = Inr (Ti, Hi, pfi)" and
    q: "simulate_loop bt (Ti, Hi, pfi) (drop i signals) = Inr (trades, history, pf)"
    by (metis prod_cases3)
  have dr: "drop i signals = signals ! i # drop (Suc i) signals"
    using assms(2) by (simp add: Cons_nth_drop_Suc)
  from q obtain T1 H1 pf1 where
    d: "simulate_day bt (Ti, Hi, pfi) (signals ! i) = Inr (T1, H1, pf1)" and
    r: "simulate_loop bt (T1, H1, pf1) (drop (Suc i) signals) = Inr (trades, history, pf)"
    unfolding dr by (rule loop_step)
  from loop_history[OF p] assms(2) have li: "length Hi = i" by auto
  from day_history[OF d] have h1: "H1 = Hi @ [day_point pfi (signals ! i)]"
    and tr: "T1 = Ti \<or> (\<exists>t. T1 = Ti @ [t] \<and> sized_before_trade bt pfi (signals ! i) t)"
    by simp_all
  from loop_history[OF r] h1 li have hi: "history ! i = day_point pfi (signals ! i)"
    by (auto simp: nth_append)
  have tk: "take (Suc i) signals = take i signals @ [signals ! i]"
    using assms(2) by (simp add: take_Suc_conv_app_nth)
  have s1: "simulate_loop bt ?st0 (take (Suc i) signals) = Inr (T1, H1, pf1)"
    unfolding tk loop_append using p d by simp
  show ?thesis
    using len p s1 hi h1 tr unfolding simulate_trading_def by auto
qed

text \<open>Witness: day 2 of the two-day scenario.\<close>

theorem valuation_before_trade_witness:
  "simulate_trading (Backtester 100000) [scenario_day1, scenario_day2] =
     Inr (scenario_trades, scenario_history, \<lparr>cash = 102937, shares = 0, total_value = 102970\<rparr>) \<and>
   (1::nat) < length [scenario_day1, scenario_day2] \<and>
   length scenario_history = length [scenario_day1, scenario_day2] \<and>
   (\<exists>Ti Hi pfi T1 H1 pf1.
        simulate_trading (Backtester 100000) (take 1 [scenario_day1, scenario_day2]) =
          Inr (Ti, Hi, pfi) \<and>
        simulate_trading (Backtester 100000) (take (Suc 1) [scenario_day1, scenario_day2]) =
          Inr (T1, H1, pf1) \<and>
        scenario_history ! 1 = day_point pfi ([scenario_day1, scenario_day2] ! 1) \<and>
        H1 = Hi @ [scenario_history ! 1] \<and>
        (T1 = Ti \<or> (\<exists>t. T1 = Ti @ [t] \<and>
            sized_before_trade (Backtester 100000) pfi ([scenario_day1, scenario_day2] ! 1) t)))"
proof -
  have i: "(1::nat) < length [scenario_day1, scenario_day2]" by simp
  from valuation_before_trade[OF scenario_run i] scenario_run i show ?thesis by blast
qed

subsection \<open>The ledger never goes negative\<close>

lemma day_nonneg:
  assumes "0 < Price row" and "transaction_cost bt \<le> 1" and "0 \<le> cash pf" and "0 \<le> shares pf"
  shows "\<exists>T' H' pf'. simulate_day bt (T, H, pf) row = Inr (T', H', pf') \<and>
           0 \<le> cash pf' \<and> 0 \<le> shares pf'"
  using assms by (auto simp: simulate_day_def Let_def)

lemma loop_nonneg:
  assumes "\<forall>r\<in>set signals. 0 < Price r" and "transaction_cost bt \<le> 1"
    and "0 \<le> cash pf" and "0 \<le> shares pf"
  shows "\<exists>T' H' pf'. simulate_loop bt (T, H, pf) signals = Inr (T', H', pf') \<and>
           0 \<le> cash pf' \<and> 0 \<le> shares pf'"
  using assms
proof (induction signals arbitrary: T H pf)
  case Nil
  then show ?case by simp
next
  case (Cons row rest)
  from Cons.prems have "0 < Price row" by simp
  from day_nonneg[OF this Cons.prems(2,3,4), of T H] obtain T1 H1 pf1 where
    d: "simulate_day bt (T, H, pf) row = Inr (T1, H1, pf1)" and
    n: "0 \<le> cash pf1" "0 \<le> shares pf1" by blast
  from Cons.prems have "\<forall>r\<in>set rest. 0 < Price r" by simp
  from Cons.IH[OF this Cons.prems(2) n, of T1 H1] d show ?case by simp
qed

text \<open>
  C3: for a signal series with strictly positive prices (and a non-negative initial
  capital, a fee of at most 100%), the run over the first k days, for every k, returns
  normally with cash >= 0 and shares >= 0.
\<close>

theorem ledger_nonneg:
  assumes "\<forall>r\<in>set signals. 0 < Price r" and "0 \<le> initial_capital bt"
    and "transaction_cost bt \<le> 1"
  shows "\<exists>T H pf. simulate_trading bt (take k signals) = Inr (T, H, pf) \<and>
           0 \<le> cash pf \<and> 0 \<le> shares pf"
proof -
  have "\<forall>r\<in>set (take k signals). 0 < Price r"
    using assms(1) by (meson in_set_takeD)
  from loop_nonneg[OF this assms(3), of _ "[]" "[]"] assms(2) show ?thesis
    by (simp add: simulate_trading_def)
qed

text \<open>Witness: the first day of the two-day scenario, with the constructor's parameters.\<close>

theorem ledger_nonneg_witness:
  "list_all (\<lambda>r. 0 < Price r) [scenario_day1, scenario_day2] \<and>
   0 \<le> initial_capital (Backtester 100000) \<and> transaction_cost (Backtester 100000) \<le> 1 \<and>
   (\<exists>T H pf. simulate_trading (Backtester 100000) (take 1 [scenario_day1, scenario_day2]) =
        Inr (T, H, pf) \<and> 0 \<le> cash pf \<and> 0 \<le> shares pf)"
proof -
  have p: "\<forall>r\<in>set [scenario_day1, scenario_day2]. 0 < Price r"
    by (simp add: scenario_day1_def scenario_day2_def)
  have c: "0 \<le> initial_capital (Backtester 100000)" "transaction_cost (Backtester 100000) \<le> 1"
    by (simp_all add: Backtester_def)
  from ledger_nonneg[OF p c, of 1] p c show ?thesis by (simp add: list_all_iff)
qed

subsection \<open>Trades alternate\<close>

lemma alternates_snoc_buy:
  "alternates ts \<Longrightarrow> open_shares ts = 0 \<Longrightarrow> t_action b = BUY \<Longrightarrow> 0 < t_shares b \<Longrightarrow>
   alternates (ts @ [b])"
  by (induction ts rule: alternates.induct) (auto simp: open_shares_def split: if_splits)

lemma alternates_snoc_sell:
  "alternates ts \<Longrightarrow> 0 < open_shares ts \<Longrightarrow> t_action s = SELL \<Longrightarrow>
   t_shares s = open_shares ts \<Longrightarrow> alternates (ts @ [s])"
  by (induction ts rule: alternates.induct) (auto simp: open_shares_def split: if_splits)

lemma day_alternates:
  assumes "simulate_day bt (T, H, pf) row = Inr (T', H', pf')"
    and "alternates T" and "shares pf = open_shares T"
  shows "alternates T' \<and> shares pf' = open_shares T'"
  using assms
  by (auto simp: simulate_day_def Let_def alternates_snoc_buy alternates_snoc_sell
      split: if_splits) (auto simp: open_shares_def)

lemma loop_alternates:
  assumes "simulate_loop bt (T, H, pf) signals = Inr (T', H', pf')"
    and "alternates T" and "shares pf = open_shares T"
  shows "alternates T' \<and> shares pf' = open_shares T'"
  using assms
proof (induction signals arbitrary: T H pf)
  case Nil
  then show ?case by simp
next
  case (Cons row rest)
  from Cons.prems(1) obtain T1 H1 pf1 where
    d: "simulate_day bt (T, H, pf) row = Inr (T1, H1, pf1)" and
    l: "simulate_loop bt (T1, H1, pf1) rest = Inr (T', H', pf')"
    by (rule loop_step)
  from day_alternates[OF d Cons.prems(2,3)] Cons.IH[OF l] show ?case by simp
qed

lemma day_trades_prefix:
  assumes "simulate_day bt (T, H, pf) row = Inr (T', H', pf')"
  shows "prefix T T'"
  using assms by (auto simp: simulate_day_def Let_def split: if_splits)

lemma loop_trades_prefix:
  assumes "simulate_loop bt (T, H, pf) signals = Inr (T', H', pf')"
  shows "prefix T T'"
  using assms
proof (induction signals arbitrary: T H pf)
  case Nil
  then show ?case by simp
next
  case (Cons row rest)
  from Cons.prems(1) obtain T1 H1 pf1 where
    d: "simulate_day bt (T, H, pf) row = Inr (T1, H1, pf1)" and
    l: "simulate_loop bt (T1, H1, pf1) rest = Inr (T', H', pf')"
    by (rule loop_step)
  from day_trades_prefix[OF d] Cons.IH[OF l] show ?case by (rule prefix_order.trans)
qed

text \<open>
  C7: the trade list of a run alternates, starting with a Buy, every Sell closing the
  whole quantity of the Buy before it. After every day k the trades so far are a prefix of
  the final list and alternate too, and the shares held are the quantity of the Buy that
  is still open, or 0 when none is.
\<close>

theorem trades_alternate:
  assumes "simulate_trading bt signals = Inr (trades, history, pf)" and "k \<le> length signals"
  shows "alternates trades \<and>
    (\<exists>Tk Hk pfk. simulate_trading bt (take k signals) = Inr (Tk, Hk, pfk) \<and>
        prefix Tk trades \<and> alternates Tk \<and> shares pfk = open_shares Tk)"
proof -
  let ?st0 = "([], [], \<lparr>cash = initial_capital bt, shares = 0, total_value = initial_capital bt\<rparr>)"
  have full: "simulate_loop bt ?st0 signals = Inr (trades, history, pf)"
    using assms(1) by (simp add: simulate_trading_def)
  have a: "alternates trades"
    using loop_alternates[OF full] by (simp add: open_shares_def)
  from loop_prefix[OF full, of k] obtain Tk Hk pfk where
    p: "simulate_loop bt ?st0 (take k signals) = Inr (Tk, Hk, pfk)" and
    q: "simulate_loop bt (Tk, Hk, pfk) (drop k signals) = Inr (trades, history, pf)"
    by (metis prod_cases3)
  have "alternates Tk \<and> shares pfk = open_shares Tk"
    using loop_alternates[OF p] by (simp add: open_shares_def)
  with a p loop_trades_prefix[OF q] show ?thesis
    by (simp add: simulate_trading_def)
qed

text \<open>Witness: the two-day scenario, after its first day.\<close>

theorem trades_alternate_witness:
  "simulate_trading (Backtester 100000) [scenario_day1, scenario_day2] =
     Inr (scenario_trades, scenario_history, \<lparr>cash = 102937, shares = 0, total_value = 102970\<rparr>) \<and>
   (1::nat) \<le> length [scenario_day1, scenario_day2] \<and>
   alternates scenario_trades \<and>
   (\<exists>Tk Hk pfk. simulate_trading (Backtester 100000) (take 1 [scenario_day1, scenario_day2]) =
        Inr (Tk, Hk, pfk) \<and>
        prefix Tk scenario_trades \<and> alternates Tk \<and> shares pfk = open_shares Tk)"
proof -
  have k: "(1::nat) \<le> length [scenario_day1, scenario_day2]" by simp
  from trades_alternate[OF scenario_run k] scenario_run k show ?thesis by blast
qed

subsection \<open>Dropped Buy signals and idle runs\<close>

text \<open>
  C8: on a day with a Buy signal and no shares held, at a nonzero price, when the share
  count int(investable / price) is zero or the total cost exceeds the cash, the day
  returns normally, appends no trade, leaves cash and shares as they were, and only
  records the history point and the valuation of the day.
\<close>

theorem buy_dropped:
  assumes "Signal row = 1" and "shares pf = 0" and "Price row \<noteq> 0"
    and "shares_to_buy = py_int (day_value pf row * max_position_size bt / Price row)"
    and "shares_to_buy = 0 \<or>
         cash pf < of_int shares_to_buy * Price row * (1 + transaction_cost bt)"
  shows "simulate_day bt (trades, history, pf) row =
     Inr (trades, history @ [day_point pf row], pf\<lparr>total_value := day_value pf row\<rparr>)"
  using assms by (auto simp add: simulate_day_def Let_def day_value_def day_point_def)

text \<open>Witness: a price of 40000 against a capital of 100000 gives int(0.75) = 0 shares.\<close>

theorem buy_dropped_witness:
  "Signal costly_row = 1 \<and> Price costly_row \<noteq> 0 \<and>
   py_int (day_value \<lparr>cash = 100000, shares = 0, total_value = 100000\<rparr> costly_row *
           max_position_size (Backtester 100000) / Price costly_row) = 0 \<and>
   simulate_day (Backtester 100000)
     ([], [], \<lparr>cash = 100000, shares = 0, total_value = 100000\<rparr>) costly_row =
     Inr ([], [\<lparr>h_date = 1, h_portfolio_value = 100000, h_price = 40000,
                h_cash = 100000, h_shares = 0\<rparr>],
          \<lparr>cash = 100000, shares = 0, total_value = 100000\<rparr>)"
proof -
  let ?pf = "\<lparr>cash = 100000, shares = 0, total_value = 100000\<rparr>"
  let ?n = "py_int (day_value ?pf costly_row * max_position_size (Backtester 100000) /
                    Price costly_row)"
  have a: "Signal costly_row = 1" "shares ?pf = 0" "Price costly_row \<noteq> 0"
    by (simp_all add: costly_row_def)
  have z: "?n = 0"
    by (simp add: costly_row_def Backtester_def py_int_def day_value_def floor_eq_iff)
  then have b: "?n = 0 \<or>
      cash ?pf < of_int ?n * Price costly_row * (1 + transaction_cost (Backtester 100000))"
    by simp
  from buy_dropped[OF a refl b, of "[]" "[]"] a z show ?thesis
    by (simp add: costly_row_def day_point_def day_value_def)
qed

lemma hold_day:
  assumes "Signal row = 0" and "shares pf = 0"
  shows "simulate_day bt (trades, history, pf) row =
     Inr (trades, history @ [day_point pf row], pf\<lparr>total_value := cash pf\<rparr>)"
  using assms by (simp add: simulate_day_def Let_def day_point_def day_value_def)

lemma hold_loop:
  assumes "\<forall>r\<in>set signals. Signal r = 0" and "shares pf = 0" and "total_value pf = cash pf"
  shows "\<exists>history'. simulate_loop bt (trades, history, pf) signals = Inr (trades, history', pf)"
  using assms
proof (induction signals arbitrary: history)
  case Nil
  then show ?case by simp
next
  case (Cons row rest)
  have "pf\<lparr>total_value := cash pf\<rparr> = pf" using Cons.prems(3) by simp
  then have "simulate_day bt (trades, history, pf) row =
      Inr (trades, history @ [day_point pf row], pf)"
    using hold_day[of row pf bt trades history] Cons.prems by simp
  then show ?case using Cons.IH[of "history @ [day_point pf row]"] Cons.prems by simp
qed

text \<open>
  C9: a series whose signals are all Hold gives no trade and a final ledger with the
  initial capital as cash and as total_value, whatever the prices.
\<close>

theorem all_hold:
  assumes "\<forall>r\<in>set signals. Signal r = 0"
  shows "\<exists>history. simulate_trading bt signals =
     Inr ([], history,
          \<lparr>cash = initial_capital bt, shares = 0, total_value = initial_capital bt\<rparr>)"
  unfolding simulate_trading_def using hold_loop[OF assms, of _ bt "[]" "[]"] by simp

text \<open>Witness: two Hold rows at prices 100 and 250.\<close>

theorem all_hold_witness:
  "list_all (\<lambda>r. Signal r = 0) hold_rows \<and>
   (\<exists>history. simulate_trading (Backtester 100000) hold_rows =
     Inr ([], history, \<lparr>cash = initial_capital (Backtester 100000), shares = 0,
                        total_value = initial_capital (Backtester 100000)\<rparr>))"
proof -
  have h: "\<forall>r\<in>set hold_rows. Signal r = 0" by (simp add: hold_rows_def)
  from all_hold[OF h, of "Backtester 100000"] h show ?thesis by (simp add: list_all_iff)
qed

section \<open>The signal generator\<close>

subsection \<open>Indicators, index by index\<close>

lemma length_rolling_mean: "length (rolling_mean w xs) = length xs"
  by (simp add: rolling_mean_def)

lemma rolling_mean_nth:
  "i < length xs \<Longrightarrow> rolling_mean w xs ! i =
     (if w = 0 \<or> i + 1 < w then None else window_mean w (take w (drop (i + 1 - w) xs)))"
  by (simp add: rolling_mean_def)

lemma rolling_mean_warmup:
  "i < length xs \<Longrightarrow> i + 1 < w \<Longrightarrow> rolling_mean w xs ! i = None"
  by (simp add: rolling_mean_def)

lemma length_diff: "length (diff xs) = length xs"
  by (cases xs) (simp_all add: diff_def)

lemma length_calculate_rsi: "length (calculate_rsi prices period) = length prices"
  by (simp add: calculate_rsi_def Let_def length_rolling_mean where_or_def neg_def length_diff)

lemma calculate_rsi_nth:
  assumes "i < length prices"
  shows "calculate_rsi prices period ! i =
     rsi_point (rolling_mean period (where_or (\<lambda>d. d > 0) 0 (diff prices)) ! i)
               (rolling_mean period (neg (where_or (\<lambda>d. d < 0) 0 (diff prices))) ! i)"
  using assms
  by (simp add: calculate_rsi_def Let_def length_rolling_mean where_or_def neg_def length_diff)

lemma calculate_rsi_warmup:
  assumes "i < length prices" and "i + 1 < period"
  shows "calculate_rsi prices period ! i = None"
proof -
  have "rolling_mean period (where_or (\<lambda>d. d > 0) 0 (diff prices)) ! i = None"
    using assms by (simp add: rolling_mean_warmup where_or_def length_diff)
  then show ?thesis
    using assms(1) by (simp add: calculate_rsi_nth rsi_point_def)
qed

lemma length_indicator_frame: "length (indicator_frame data) = length data"
  by (simp add: indicator_frame_def Let_def split: prod.splits)

lemma indicator_frame_nth:
  assumes "i < length data"
  shows "indicator_frame data ! i =
     \<lparr>Date = fst (data ! i), Price = snd (data ! i),
      RSI = calculate_rsi (map (\<lambda>(d, c). Some c) data) 14 ! i,
      MA20 = rolling_mean 20 (map (\<lambda>(d, c). Some c) data) ! i,
      MA50 = rolling_mean 50 (map (\<lambda>(d, c). Some c) data) ! i, Signal = 0\<rparr>"
  using assms by (simp add: indicator_frame_def Let_def calculate_moving_averages_def)

lemma length_apply_strategy: "length (apply_strategy signals) = length signals"
  by (simp add: apply_strategy_def loc_mask_def Let_def)

lemma apply_strategy_nth:
  assumes "i < length signals"
  shows "apply_strategy signals ! i =
     (if sell_condition (signals ! i) then (signals ! i)\<lparr>Signal := - 1\<rparr>
      else if buy_condition (signals ! i) then (signals ! i)\<lparr>Signal := 1\<rparr>
      else signals ! i)"
  using assms by (simp add: apply_strategy_def loc_mask_def Let_def sell_condition_def)

subsection \<open>The sample series\<close>

lemma sample_closes:
  "map (\<lambda>(d, c). Some c) sample_data =
     map Some [100, 110, 120, 130, 140, 150, 160, 170, 180, 190,
               200, 210, 220, 230, 240, 250, 260, 270, 280, 290,
               300, 310, 320, 330, 340, 350, 360, 370, 380, 390,
               400, 410, 420, 430, 440, 450, 449, 448, 447, 446,
               445, 444, 443, 442, 441, 440, 439, 438, 437, 436]"
  by code_simp

lemma sample_diff:
  "diff (map (\<lambda>(d, c). Some c) sample_data) =
     None # map Some [10, 10, 10, 10, 10, 10, 10, 10, 10,
               10, 10, 10, 10, 10, 10, 10, 10, 10, 10,
               10, 10, 10, 10, 10, 10, 10, 10, 10, 10,
               10, 10, 10, 10, 10, 10, - 1, - 1, - 1, - 1,
               - 1, - 1, - 1, - 1, - 1, - 1, - 1, - 1, - 1, - 1]"
  unfolding sample_closes by (simp add: diff_def)

lemma length_sample: "length sample_data = 50"
  by (simp add: sample_data_def)

lemma sample_ma50: "rolling_mean 50 (map (\<lambda>(d, c). Some c) sample_data) ! 49 = Some (3219 / 10)"
  unfolding sample_closes by (simp add: rolling_mean_nth window_mean_def)

lemma sample_ma20: "rolling_mean 20 (map (\<lambda>(d, c). Some c) sample_data) ! 49 = Some (1749 / 4)"
  unfolding sample_closes by (simp add: rolling_mean_nth window_mean_def)

lemma sample_rsi: "calculate_rsi (map (\<lambda>(d, c). Some c) sample_data) 14 ! 49 = Some 0"
  using length_sample
  by (simp add: calculate_rsi_nth sample_diff rolling_mean_nth window_mean_def where_or_def
      neg_def rsi_point_def)

lemma sample_last_row:
  "RSI (apply_strategy (indicator_frame sample_data) ! 49) = Some 0 \<and>
   MA20 (apply_strategy (indicator_frame sample_data) ! 49) = Some (1749 / 4) \<and>
   MA50 (apply_strategy (indicator_frame sample_data) ! 49) = Some (3219 / 10)"
  using length_sample
  by (simp add: apply_strategy_nth length_indicator_frame indicator_frame_nth
      sample_rsi sample_ma20 sample_ma50)

subsection \<open>The strategy rule\<close>

text \<open>
  C5: at a timestamp whose RSI, MA20 and MA50 are defined, the signal before the
  time-based exit is Sell (-1) if RSI > 50 or MA20 < MA50, else Buy (1) if RSI < 30 and
  MA20 > MA50, else Hold (0): the Sell mask is assigned after the Buy mask and wins.
\<close>

theorem strategy_signal:
  assumes "i < length data" and "r = apply_strategy (indicator_frame data) ! i"
    and "RSI r = Some rsi" and "MA20 r = Some ma20" and "MA50 r = Some ma50"
  shows "Signal r = (if rsi > 50 \<or> ma20 < ma50 then - 1
                     else if rsi < 30 \<and> ma20 > ma50 then 1 else 0)"
proof -
  let ?f = "indicator_frame data ! i"
  have s0: "Signal ?f = 0" using assms(1) by (simp add: indicator_frame_nth)
  have r: "r = (if sell_condition ?f then ?f\<lparr>Signal := - 1\<rparr>
      else if buy_condition ?f then ?f\<lparr>Signal := 1\<rparr> else ?f)"
    using assms(1,2) by (simp add: apply_strategy_nth length_indicator_frame)
  then have "RSI ?f = Some rsi" "MA20 ?f = Some ma20" "MA50 ?f = Some ma50"
    using assms(3,4,5) by (auto split: if_splits)
  then have "sell_condition ?f = (rsi > 50 \<or> ma20 < ma50)"
    "buy_condition ?f = (rsi < 30 \<and> ma20 > ma50)"
    by (simp_all add: sell_condition_def buy_condition_def nan_less_def)
  with r s0 show ?thesis by simp
qed

text \<open>
  Witness: the last day of the sample series, with RSI 0, MA20 437.25 and MA50 321.9:
  a Buy.
\<close>

theorem strategy_signal_witness:
  "(49::nat) < length sample_data \<and>
   RSI (apply_strategy (indicator_frame sample_data) ! 49) = Some 0 \<and>
   MA20 (apply_strategy (indicator_frame sample_data) ! 49) = Some (1749 / 4) \<and>
   MA50 (apply_strategy (indicator_frame sample_data) ! 49) = Some (3219 / 10) \<and>
   Signal (apply_strategy (indicator_frame sample_data) ! 49) = 1"
proof -
  have i: "(49::nat) < length sample_data" by (simp add: length_sample)
  from sample_last_row have r:
    "RSI (apply_strategy (indicator_frame sample_data) ! 49) = Some 0"
    "MA20 (apply_strategy (indicator_frame sample_data) ! 49) = Some (1749 / 4)"
    "MA50 (apply_strategy (indicator_frame sample_data) ! 49) = Some (3219 / 10)"
    by simp_all
  from strategy_signal[OF i refl r] i r show ?thesis by simp
qed

subsection \<open>The time-based exit\<close>

lemma loc_label_nth:
  "i < length rows \<Longrightarrow> sell_or_same (rows ! i) (loc_label d (- 1) rows ! i)"
  by (simp add: loc_label_def sell_or_same_def)

lemma sell_or_same_trans:
  "sell_or_same a b \<Longrightarrow> sell_or_same b c \<Longrightarrow> sell_or_same a c"
  by (auto simp: sell_or_same_def)

lemma forced_exit_nth:
  "length (forced_exit ip bd rows frame) = length frame \<and>
   (\<forall>i<length frame. sell_or_same (frame ! i) (forced_exit ip bd rows frame ! i))"
proof (induction rows arbitrary: ip bd frame)
  case Nil
  then show ?case by (simp add: sell_or_same_def)
next
  case (Cons row rest)
  have w: "length (forced_exit ip' bd' rest (loc_label d (- 1) frame)) = length frame \<and>
     (\<forall>i<length frame.
         sell_or_same (frame ! i) (forced_exit ip' bd' rest (loc_label d (- 1) frame) ! i))"
    for ip' bd' d
  proof -
    have l: "length (loc_label d (- 1) frame) = length frame" by (simp add: loc_label_def)
    from Cons.IH[of ip' bd' "loc_label d (- 1) frame"] l loc_label_nth[of _ frame d]
    show ?thesis by (metis sell_or_same_trans)
  qed
  show ?case using Cons.IH w by (simp add: Let_def)
qed

lemma forced_exit_sell_stays:
  "\<forall>r\<in>set frame. Date r = d \<longrightarrow> Signal r = - 1 \<Longrightarrow>
   \<forall>r\<in>set (forced_exit ip bd rows frame). Date r = d \<longrightarrow> Signal r = - 1"
proof (induction rows arbitrary: ip bd frame)
  case Nil
  then show ?case by simp
next
  case (Cons row rest)
  have "\<forall>r\<in>set (loc_label d' (- 1) frame). Date r = d \<longrightarrow> Signal r = - 1" for d'
    using Cons.prems by (auto simp: loc_label_def)
  from Cons.IH[OF this] Cons.IH[OF Cons.prems] show ?case by (simp add: Let_def)
qed

text \<open>
  C10: in the walk of the time-based exit, a raw Buy met while in position (entry date b)
  leaves the state as it is when fewer than 30 days have passed: no new entry, the entry
  date is not reset, the frame is not written. When 30 days or more have passed, the walk
  goes on flat with the Signal of that date written to Sell, and the returned frame still
  has Sell on every row of that date.
\<close>

theorem buy_while_in_position:
  assumes "Signal row = 1"
  shows "(Date row - b < 30 \<longrightarrow>
            forced_exit True (Some b) (row # rest) signals =
              forced_exit True (Some b) rest signals) \<and>
         (30 \<le> Date row - b \<longrightarrow>
            forced_exit True (Some b) (row # rest) signals =
              forced_exit False None rest (loc_label (Date row) (- 1) signals) \<and>
            (\<forall>r\<in>set (forced_exit True (Some b) (row # rest) signals).
                Date r = Date row \<longrightarrow> Signal r = - 1))"
proof -
  have "\<forall>r\<in>set (loc_label (Date row) (- 1) signals). Date r = Date row \<longrightarrow> Signal r = - 1"
    by (auto simp: loc_label_def)
  from forced_exit_sell_stays[OF this] assms show ?thesis by (simp add: Let_def)
qed

text \<open>
  Witness: in position since day 5, a raw Buy on day 20 is left alone and a raw Buy on
  day 40 leaves the pass as a Sell.
\<close>

theorem buy_while_in_position_witness:
  "Signal (rebuy_row 20) = 1 \<and> Date (rebuy_row 20) - 5 < 30 \<and>
   forced_exit True (Some 5) [rebuy_row 20] [rebuy_row 20] = [rebuy_row 20] \<and>
   Signal (rebuy_row 40) = 1 \<and> 30 \<le> Date (rebuy_row 40) - 5 \<and>
   forced_exit True (Some 5) [rebuy_row 40] [rebuy_row 40] = [(rebuy_row 40)\<lparr>Signal := - 1\<rparr>]"
proof -
  have s: "Signal (rebuy_row 20) = 1" "Signal (rebuy_row 40) = 1"
    by (simp_all add: rebuy_row_def)
  have d: "Date (rebuy_row 20) - 5 < 30" "30 \<le> Date (rebuy_row 40) - 5"
    by (simp_all add: rebuy_row_def)
  have "forced_exit True (Some 5) [rebuy_row 20] [rebuy_row 20] =
      forced_exit True (Some 5) [] [rebuy_row 20]"
    using buy_while_in_position[OF s(1), of 5 "[]" "[rebuy_row 20]"] d(1) by blast
  also have "\<dots> = [rebuy_row 20]"
    by (simp only: forced_exit.simps(1))
  finally have a: "forced_exit True (Some 5) [rebuy_row 20] [rebuy_row 20] = [rebuy_row 20]" .
  have "forced_exit True (Some 5) [rebuy_row 40] [rebuy_row 40] =
      forced_exit False None [] (loc_label (Date (rebuy_row 40)) (- 1) [rebuy_row 40])"
    using buy_while_in_position[OF s(2), of 5 "[]" "[rebuy_row 40]"] d(2) by blast
  also have "\<dots> = [(rebuy_row 40)\<lparr>Signal := - 1\<rparr>]"
    by (simp only: forced_exit.simps(1)) (simp add: loc_label_def)
  finally have b: "forced_exit True (Some 5) [rebuy_row 40] [rebuy_row 40] =
      [(rebuy_row 40)\<lparr>Signal := - 1\<rparr>]" .
  from s d a b show ?thesis by blast
qed

subsection \<open>Warm-up rows\<close>

lemma generate_signals_nth:
  assumes "i < length data"
  shows "length (generate_signals data) = length data \<and>
     sell_or_same (apply_strategy (indicator_frame data) ! i) (generate_signals data ! i)"
  using assms
    forced_exit_nth[of False None "apply_strategy (indicator_frame data)"
      "apply_strategy (indicator_frame data)"]
  by (simp add: generate_signals_def time_exit_def length_apply_strategy length_indicator_frame)

text \<open>
  C6 (as stated): the output has no entry for a warm-up timestamp. The code drops no row:
  a one-day price series gives a one-row output whose three indicators are undefined.
\<close>

theorem warmup_rows_counterexample:
  "generate_signals [(0, 100)] =
     [\<lparr>Date = 0, Price = 100, RSI = None, MA20 = None, MA50 = None, Signal = 0\<rparr>]"
  by (simp add: generate_signals_def time_exit_def apply_strategy_def indicator_frame_def
      calculate_rsi_def calculate_moving_averages_def rolling_mean_def diff_def where_or_def
      neg_def rsi_point_def loc_mask_def sell_condition_def buy_condition_def nan_less_def Let_def)

text \<open>
  C6 (amended): the output has one row per input timestamp, in the input's order, the
  warm-up rows included. Their indicators stay undefined (RSI on the first 13 rows, MA20
  on the first 19, MA50 on the first 49), and since a comparison with an undefined value
  is false, no row of the first 49 is a Buy.
\<close>

theorem warmup_rows_kept:
  assumes "i < length data"
  shows "length (generate_signals data) = length data \<and>
     Date (generate_signals data ! i) = fst (data ! i) \<and>
     (i < 13 \<longrightarrow> RSI (generate_signals data ! i) = None) \<and>
     (i < 19 \<longrightarrow> MA20 (generate_signals data ! i) = None) \<and>
     (i < 49 \<longrightarrow> MA50 (generate_signals data ! i) = None \<and>
                Signal (generate_signals data ! i) \<noteq> 1)"
proof -
  let ?f = "indicator_frame data ! i"
  let ?a = "apply_strategy (indicator_frame data) ! i"
  let ?c = "map (\<lambda>(d, c). Some c) data"
  have f: "?f = \<lparr>Date = fst (data ! i), Price = snd (data ! i),
      RSI = calculate_rsi ?c 14 ! i, MA20 = rolling_mean 20 ?c ! i,
      MA50 = rolling_mean 50 ?c ! i, Signal = 0\<rparr>"
    using assms by (rule indicator_frame_nth)
  have a: "?a = (if sell_condition ?f then ?f\<lparr>Signal := - 1\<rparr>
      else if buy_condition ?f then ?f\<lparr>Signal := 1\<rparr> else ?f)"
    using assms by (simp add: apply_strategy_nth length_indicator_frame)
  have g: "length (generate_signals data) = length data"
    "sell_or_same ?a (generate_signals data ! i)"
    using generate_signals_nth[OF assms] by simp_all
  have fields: "Date (generate_signals data ! i) = Date ?f"
    "RSI (generate_signals data ! i) = RSI ?f"
    "MA20 (generate_signals data ! i) = MA20 ?f" "MA50 (generate_signals data ! i) = MA50 ?f"
    using g(2) a by (auto simp: sell_or_same_def)
  have sg: "Signal (generate_signals data ! i) = 1 \<longrightarrow> buy_condition ?f"
    using g(2) a f by (auto simp: sell_or_same_def split: if_splits)
  have r: "i < 13 \<longrightarrow> RSI ?f = None"
    using assms f by (simp add: calculate_rsi_warmup)
  have m20: "i < 19 \<longrightarrow> MA20 ?f = None"
    using assms f by (simp add: rolling_mean_warmup)
  have m50: "i < 49 \<longrightarrow> MA50 ?f = None"
    using assms f by (simp add: rolling_mean_warmup)
  have nb: "MA50 ?f = None \<longrightarrow> \<not> buy_condition ?f"
    by (simp add: buy_condition_def nan_less_def)
  from g(1) fields r m20 m50 nb sg f show ?thesis by auto
qed

text \<open>Witness: row 12 of the sample series.\<close>

theorem warmup_rows_kept_witness:
  "(12::nat) < length sample_data \<and>
   length (generate_signals sample_data) = length sample_data \<and>
   Date (generate_signals sample_data ! 12) = fst (sample_data ! 12) \<and>
   RSI (generate_signals sample_data ! 12) = None \<and>
   MA20 (generate_signals sample_data ! 12) = None \<and>
   MA50 (generate_signals sample_data ! 12) = None \<and>
   Signal (generate_signals sample_data ! 12) \<noteq> 1"
proof -
  have i: "(12::nat) < length sample_data" by (simp add: length_sample)
  from warmup_rows_kept[OF i] i show ?thesis by simp
qed

section \<open>The forced exit, end to end\<close>

subsection \<open>The walk, row by row\<close>





subsection \<open>What a day does to the trade list\<close>






subsection \<open>A held position is closed by the first row 30 days after the entry\<close>




subsection \<open>The calendar gap\<close>







end
